theory Spec2Isabelle
  imports Complex_Main "HOL-Library.Word"
begin

section \<open>Errors\<close>

text \<open>
  A thrown \<open>MR::Exception\<close> carries its message (the fixed part of the text; numbers
  interpolated with \<open>str\<close> are left out). A failed \<open>assert\<close> is a result of its own, and
  so is a read or write past the extent of a container, which the C++ does not check.
\<close>

datatype error = Exception string | AssertionFailed | OutOfBounds

section \<open>Floating-point values\<close>

text \<open>
  A \<open>float\<close> or \<open>double\<close> of the C++ is a finite number, an infinity or NaN. Arithmetic on
  the special values follows IEEE 754. Arithmetic on finite values is exact here: the
  rounding of sums, products and quotients, overflow to infinity and the sign of zero are
  outside the model (a division of a non-zero finite number by zero gives the infinity of
  the sign of the numerator).
\<close>

datatype float = Fin real | PInf | NInf | NaN

fun isfinite :: "float \<Rightarrow> bool" where
  "isfinite (Fin a) = True"
| "isfinite PInf = False"
| "isfinite NInf = False"
| "isfinite NaN = False"

fun fneg :: "float \<Rightarrow> float" where
  "fneg (Fin a) = Fin (- a)"
| "fneg PInf = NInf"
| "fneg NInf = PInf"
| "fneg NaN = NaN"

fun fadd :: "float \<Rightarrow> float \<Rightarrow> float" where
  "fadd (Fin a) (Fin b) = Fin (a + b)"
| "fadd (Fin a) PInf = PInf"
| "fadd (Fin a) NInf = NInf"
| "fadd PInf (Fin b) = PInf"
| "fadd PInf PInf = PInf"
| "fadd PInf NInf = NaN"
| "fadd NInf (Fin b) = NInf"
| "fadd NInf PInf = NaN"
| "fadd NInf NInf = NInf"
| "fadd NaN y = NaN"
| "fadd x NaN = NaN"

fun fmul :: "float \<Rightarrow> float \<Rightarrow> float" where
  "fmul (Fin a) (Fin b) = Fin (a * b)"
| "fmul (Fin a) PInf = (if a = 0 then NaN else if 0 < a then PInf else NInf)"
| "fmul (Fin a) NInf = (if a = 0 then NaN else if 0 < a then NInf else PInf)"
| "fmul PInf (Fin b) = (if b = 0 then NaN else if 0 < b then PInf else NInf)"
| "fmul PInf PInf = PInf"
| "fmul PInf NInf = NInf"
| "fmul NInf (Fin b) = (if b = 0 then NaN else if 0 < b then NInf else PInf)"
| "fmul NInf PInf = NInf"
| "fmul NInf NInf = PInf"
| "fmul NaN y = NaN"
| "fmul x NaN = NaN"

fun fdiv :: "float \<Rightarrow> float \<Rightarrow> float" where
  "fdiv (Fin a) (Fin b) =
     (if b = 0 then (if a = 0 then NaN else if 0 < a then PInf else NInf) else Fin (a / b))"
| "fdiv (Fin a) PInf = Fin 0"
| "fdiv (Fin a) NInf = Fin 0"
| "fdiv PInf (Fin b) = (if 0 \<le> b then PInf else NInf)"
| "fdiv PInf PInf = NaN"
| "fdiv PInf NInf = NaN"
| "fdiv NInf (Fin b) = (if 0 \<le> b then NInf else PInf)"
| "fdiv NInf PInf = NaN"
| "fdiv NInf NInf = NaN"
| "fdiv NaN y = NaN"
| "fdiv x NaN = NaN"

text \<open>Comparisons: every comparison with NaN is false.\<close>

fun flt :: "float \<Rightarrow> float \<Rightarrow> bool" where
  "flt (Fin a) (Fin b) = (a < b)"
| "flt (Fin a) PInf = True"
| "flt (Fin a) NInf = False"
| "flt PInf y = False"
| "flt NInf (Fin b) = True"
| "flt NInf PInf = True"
| "flt NInf NInf = False"
| "flt NaN y = False"
| "flt x NaN = False"

fun fle :: "float \<Rightarrow> float \<Rightarrow> bool" where
  "fle (Fin a) (Fin b) = (a \<le> b)"
| "fle (Fin a) PInf = True"
| "fle (Fin a) NInf = False"
| "fle PInf (Fin b) = False"
| "fle PInf PInf = True"
| "fle PInf NInf = False"
| "fle NInf (Fin b) = True"
| "fle NInf PInf = True"
| "fle NInf NInf = True"
| "fle NaN y = False"
| "fle x NaN = False"

fun fsqrt :: "float \<Rightarrow> float" where
  "fsqrt (Fin a) = (if a < 0 then NaN else Fin (sqrt a))"
| "fsqrt PInf = PInf"
| "fsqrt NInf = NaN"
| "fsqrt NaN = NaN"

fun facos :: "float \<Rightarrow> float" where
  "facos (Fin a) = (if - 1 \<le> a \<and> a \<le> 1 then Fin (arccos a) else NaN)"
| "facos PInf = NaN"
| "facos NInf = NaN"
| "facos NaN = NaN"

text \<open>
  The conversion of an unsigned integer to \<open>float\<close> is modelled with its rounding, since
  it decides which entries of a table are read: a float has 24 significant bits, a larger
  integer is rounded to the nearest float, a tie to the one with the even significand. The
  result is an integer again.
\<close>

fun bit_length :: "nat \<Rightarrow> nat" where
  "bit_length n = (if n = 0 then 0 else Suc (bit_length (n div 2)))"

declare bit_length.simps [simp del]

definition round_to_float :: "nat \<Rightarrow> nat" where
  "round_to_float n =
     (if n < 2 ^ 24 then n
      else
        let e = bit_length n - 24;
            q = n div 2 ^ e;
            r = n mod 2 ^ e
        in if r < 2 ^ (e - 1) \<or> (r = 2 ^ (e - 1) \<and> even q) then q * 2 ^ e else (q + 1) * 2 ^ e)"

definition float_of_nat :: "nat \<Rightarrow> float" where
  "float_of_nat n = Fin (real (round_to_float n))"

text \<open>A direction is an \<open>Eigen::Matrix<float, 3, 1>\<close>.\<close>

type_synonym vec3 = "float \<times> float \<times> float"

fun dot :: "vec3 \<Rightarrow> vec3 \<Rightarrow> float" where
  "dot (x1, y1, z1) (x2, y2, z2) = fadd (fadd (fmul x1 x2) (fmul y1 y2)) (fmul z1 z2)"

fun vscale :: "vec3 \<Rightarrow> float \<Rightarrow> vec3" where
  "vscale (x, y, z) c = (fmul x c, fmul y c, fmul z c)"

fun vadd :: "vec3 \<Rightarrow> vec3 \<Rightarrow> vec3" where
  "vadd (x1, y1, z1) (x2, y2, z2) = (fadd x1 x2, fadd y1 y2, fadd z1 z2)"

text \<open>
  Eigen's \<open>normalize()\<close> divides the vector by its norm when the squared norm is positive
  and leaves it unchanged otherwise.
\<close>

fun normalize :: "vec3 \<Rightarrow> vec3" where
  "normalize (x, y, z) =
     (let n2 = dot (x, y, z) (x, y, z) in
      if flt (Fin 0) n2 then (fdiv x (fsqrt n2), fdiv y (fsqrt n2), fdiv z (fsqrt n2))
      else (x, y, z))"

section \<open>Fixel::Correspondence::Mapping (src/fixel/correspondence/mapping.h)\<close>

text \<open>
  The class holds the two fixel counts and the ragged table \<open>M\<close>: for each target fixel,
  the sequence of \<open>uint32_t\<close> source fixel indices.
\<close>

record mapping =
  source_fixels :: "32 word"
  target_fixels :: "32 word"
  M :: "32 word list list"

definition Mapping :: "32 word \<Rightarrow> 32 word \<Rightarrow> mapping" where
  "Mapping s t = \<lparr>source_fixels = s, target_fixels = t, M = replicate (unat t) []\<rparr>"

definition mapping_size :: "mapping \<Rightarrow> nat" where
  "mapping_size m = length (M m)"

text \<open>
  \<open>operator[]\<close> builds a \<open>Value\<close> (or \<open>ConstValue\<close>) for an index; the constructor
  asserts that the index is below \<open>M.size()\<close>. The handle is the checked index.
\<close>

definition Value :: "mapping \<Rightarrow> nat \<Rightarrow> error + nat" where
  "Value m index = (if index < length (M m) then Inr index else Inl AssertionFailed)"

text \<open>\<open>m[index]()\<close>: the sequence stored for the index.\<close>

definition value_get :: "mapping \<Rightarrow> nat \<Rightarrow> error + 32 word list" where
  "value_get m index =
     (case Value m index of Inl e \<Rightarrow> Inl e | Inr h \<Rightarrow> Inr (M m ! h))"

text \<open>\<open>m[index] = data\<close>: \<open>M[index] = data\<close>.\<close>

definition value_assign :: "mapping \<Rightarrow> nat \<Rightarrow> 32 word list \<Rightarrow> error + mapping" where
  "value_assign m index data =
     (case Value m index of Inl e \<Rightarrow> Inl e | Inr h \<Rightarrow> Inr (m\<lparr>M := (M m)[h := data]\<rparr>))"

text \<open>\<open>m[index].size()\<close> and \<open>m[index][i]\<close>; the latter asserts \<open>i < M[index].size()\<close>.\<close>

definition value_size :: "mapping \<Rightarrow> nat \<Rightarrow> error + nat" where
  "value_size m index =
     (case Value m index of Inl e \<Rightarrow> Inl e | Inr h \<Rightarrow> Inr (length (M m ! h)))"

definition value_at :: "mapping \<Rightarrow> nat \<Rightarrow> nat \<Rightarrow> error + 32 word" where
  "value_at m index i =
     (case Value m index of
        Inl e \<Rightarrow> Inl e
      | Inr h \<Rightarrow> if i < length (M m ! h) then Inr (M m ! h ! i) else Inl AssertionFailed)"

section \<open>Mapping: inverse, save and load (declared in mapping.h)\<close>

text \<open>
  Modelled from the spec: \<open>Mapping::inverse\<close>, whose body (mapping.cpp) is not among the
  sources. It derives the reverse mapping, from a source index to the sequence of target
  indices it contributes to, by scanning all target entries once. The function is named
  \<open>mapping_inverse\<close>, since \<open>inverse\<close> is a constant of HOL.
\<close>

fun scatter :: "32 word list \<Rightarrow> 32 word \<Rightarrow> 32 word list list \<Rightarrow> 32 word list list" where
  "scatter [] t inverted = inverted"
| "scatter (s # rest) t inverted = scatter rest t (inverted[unat s := inverted ! unat s @ [t]])"

fun inverse_scan :: "32 word list list \<Rightarrow> nat \<Rightarrow> 32 word list list \<Rightarrow> 32 word list list" where
  "inverse_scan [] t inverted = inverted"
| "inverse_scan (in_indices # rest) t inverted =
     inverse_scan rest (Suc t) (scatter in_indices (of_nat t) inverted)"

definition mapping_inverse :: "mapping \<Rightarrow> 32 word list list" where
  "mapping_inverse m = inverse_scan (M m) 0 (replicate (unat (source_fixels m)) [])"

text \<open>
  Modelled from the spec: the persisted form of a mapping, which \<open>Mapping::save\<close> writes and
  \<open>Mapping::load\<close> reads (mapping.cpp is not among the sources). The spec describes a
  fixel-dataset-shaped structure: an index file that gives, for each key fixel, the count
  and the offset of its entries in a flat list, and the flat list of 32-bit unsigned
  indices. The number of fixels on the other side is kept with it, since a mapping is
  constructed from both counts.
\<close>

record persisted_mapping =
  other_count :: "32 word"
  index_file :: "(nat \<times> nat) list"
  fixels_file :: "32 word list"

text \<open>
  A directory holds the mapping and, when asked for at \<open>save\<close>, the inverse mapping
  alongside. The file system maps a path to the directory found there.
\<close>

record mapping_directory =
  mapping_files :: persisted_mapping
  inverse_files :: "persisted_mapping option"

type_synonym filesystem = "string \<Rightarrow> mapping_directory option"

fun build_index :: "32 word list list \<Rightarrow> nat \<Rightarrow> (nat \<times> nat) list" where
  "build_index [] offset = []"
| "build_index (in_indices # rest) offset =
     (length in_indices, offset) # build_index rest (offset + length in_indices)"

definition write_entries :: "32 word \<Rightarrow> 32 word list list \<Rightarrow> persisted_mapping" where
  "write_entries n entries =
     \<lparr>other_count = n, index_file = build_index entries 0, fixels_file = concat entries\<rparr>"

definition read_entries :: "persisted_mapping \<Rightarrow> 32 word list list" where
  "read_entries f =
     map (\<lambda>(count, offset). take count (drop offset (fixels_file f))) (index_file f)"

text \<open>
  Modelled from the spec: \<open>Mapping::save (directory, export_inverse)\<close> persists each target
  fixel's index list in the layout above; the inverse mapping is exported alongside on
  request.
\<close>

definition save :: "string \<Rightarrow> bool \<Rightarrow> mapping \<Rightarrow> filesystem \<Rightarrow> filesystem" where
  "save directory export_inverse m fs =
     fs(directory \<mapsto>
        \<lparr>mapping_files = write_entries (source_fixels m) (M m),
         inverse_files =
           (if export_inverse
            then Some (write_entries (of_nat (length (M m))) (mapping_inverse m))
            else None)\<rparr>)"

text \<open>
  Modelled from the spec: \<open>Mapping::load (directory, import_inverse)\<close> reconstructs the
  mapping from the persisted form; with \<open>import_inverse\<close> set it reads the persisted
  structure as a mapping from source to target and builds the transpose. A directory that
  is not there is an error at load time.
\<close>

definition load :: "string \<Rightarrow> bool \<Rightarrow> filesystem \<Rightarrow> error + mapping" where
  "load directory import_inverse fs =
     (case fs directory of
        None \<Rightarrow> Inl (Exception ''Fixel correspondence directory not found'')
      | Some d \<Rightarrow>
          let entries = read_entries (mapping_files d);
              stored = \<lparr>source_fixels = other_count (mapping_files d),
                        target_fixels = of_nat (length entries),
                        M = entries\<rparr>
          in if import_inverse
             then Inr \<lparr>source_fixels = of_nat (length entries),
                       target_fixels = other_count (mapping_files d),
                       M = mapping_inverse stored\<rparr>
             else Inr stored)"

section \<open>Fixel::Correspondence::Projector (src/fixel/correspondence/projector.cpp)\<close>

text \<open>
  The enumerators carry the prefix \<open>metric_\<close>, since \<open>SUM\<close> is binder syntax of HOL.
\<close>

datatype projection_metric_t = metric_SUM | metric_MEAN | metric_COUNT | metric_ANGLE

record fill_settings =
  fill_value :: float
  nan_many2one :: bool
  nan_one2many :: bool

text \<open>
  A one-dimensional \<open>Image<float>\<close> over fixels is the list of its values, a directions
  image the list of its rows. \<open>explicit_weights\<close> is \<open>None\<close> when the image is not valid
  (no weights were supplied).
\<close>

record projector =
  correspondence :: mapping
  metric :: projection_metric_t
  fill :: fill_settings
  input_data :: "float list"
  implicit_weights :: "float list"
  explicit_weights :: "float list option"
  input_directions :: "vec3 list"
  target_directions :: "vec3 list"
  output_data :: "float list"

text \<open>
  What the constructor finds on disk, as far as it looks: whether \<open>input_path\<close> is a
  directory, whether its header is that of a fixel data file, the fixel data themselves,
  the directions file of the input's fixel directory and that of the output directory.
\<close>

record projector_files =
  input_is_dir :: bool
  input_is_data_file :: bool
  input_file_data :: "float list"
  input_dir_directions :: "vec3 list"
  output_dir_directions :: "vec3 list"

text \<open>
  The constructor counts, in a \<open>vector<uint8_t>\<close>, how many times each source fixel is
  listed in the mapping. The inner loop runs over the list of one target fixel, the outer
  loop over the target fixels. The counter is eight bits wide and the increment wraps.
\<close>

fun count_objectives :: "32 word list \<Rightarrow> 8 word list \<Rightarrow> error + 8 word list" where
  "count_objectives [] objectives = Inr objectives"
| "count_objectives (i # rest) objectives =
     (if unat i < length objectives
      then count_objectives rest (objectives[unat i := objectives ! unat i + 1])
      else Inl AssertionFailed)"

fun objectives_per_source_fixel :: "32 word list list \<Rightarrow> 8 word list \<Rightarrow> error + 8 word list" where
  "objectives_per_source_fixel [] objectives = Inr objectives"
| "objectives_per_source_fixel (in_indices # rest) objectives =
     (case count_objectives in_indices objectives of
        Inl e \<Rightarrow> Inl e
      | Inr objectives' \<Rightarrow> objectives_per_source_fixel rest objectives')"

definition implicit_weight :: "8 word \<Rightarrow> float" where
  "implicit_weight objectives =
     (if objectives \<noteq> 0 then fdiv (Fin 1) (float_of_nat (unat objectives)) else Fin 0)"

definition Projector ::
  "projector_files \<Rightarrow> mapping \<Rightarrow> projection_metric_t \<Rightarrow> fill_settings \<Rightarrow> float list option
     \<Rightarrow> error + projector" where
  "Projector files corr met fill_set weights =
     (if input_is_dir files
      then Inl (Exception ''Please input the fixel data file to be mapped; not a fixel directory'')
      else if \<not> input_is_data_file files
      then Inl (Exception ''Input image is not a fixel data file'')
      else if (case weights of None \<Rightarrow> False
               | Some w \<Rightarrow> length w \<noteq> length (input_file_data files))
      then Inl (Exception ''Number of fixels in input file does not match number of fixels in fixel weights file'')
      else if length (output_dir_directions files) \<noteq> mapping_size corr
      then Inl (Exception ''Number of fixels in output directory does not match number of lines in fixel correspondence file'')
      else
        (case objectives_per_source_fixel (M corr) (replicate (length (input_file_data files)) 0) of
           Inl e \<Rightarrow> Inl e
         | Inr objectives \<Rightarrow>
             Inr \<lparr>correspondence = corr,
                  metric = met,
                  fill = fill_set,
                  input_data = input_file_data files,
                  implicit_weights = map implicit_weight objectives,
                  explicit_weights = weights,
                  input_directions = input_dir_directions files,
                  target_directions = output_dir_directions files,
                  output_data = replicate (length (output_dir_directions files)) (Fin 0)\<rparr>))"

text \<open>
  \<open>operator()\<close>, first loop: for each source fixel of the target, look at its implicit
  weight (and leave with NaN if \<open>nan_one2many\<close> is set and the weight is below one), then
  collect its direction, its value and its weight. \<open>None\<close> is the early exit.
\<close>

fun gather ::
  "projector \<Rightarrow> 32 word list \<Rightarrow> vec3 list \<times> float list \<times> float list
     \<Rightarrow> error + (vec3 list \<times> float list \<times> float list) option" where
  "gather p [] acc = Inr (Some acc)"
| "gather p (i # rest) (directions, vals, weights) =
     (if \<not> unat i < length (implicit_weights p) then Inl OutOfBounds
      else if nan_one2many (fill p) \<and> flt (implicit_weights p ! unat i) (Fin 1) then Inr None
      else if \<not> unat i < length (input_directions p) then Inl OutOfBounds
      else if \<not> unat i < length (input_data p) then Inl OutOfBounds
      else
        (case explicit_weights p of
           Some ew \<Rightarrow>
             if \<not> unat i < length ew then Inl OutOfBounds
             else gather p rest
                    (directions @ [input_directions p ! unat i],
                     vals @ [input_data p ! unat i],
                     weights @ [fmul (implicit_weights p ! unat i) (ew ! unat i)])
         | None \<Rightarrow>
             gather p rest
               (directions @ [input_directions p ! unat i],
                vals @ [input_data p ! unat i],
                weights @ [implicit_weights p ! unat i])))"

text \<open>The loops of the metrics run over the collected vectors in step.\<close>

fun sum_loop :: "float list \<Rightarrow> float list \<Rightarrow> float \<Rightarrow> float" where
  "sum_loop (v # vals) (w # weights) result = sum_loop vals weights (fadd result (fmul v w))"
| "sum_loop vals weights result = result"

fun mean_loop :: "float list \<Rightarrow> float list \<Rightarrow> float \<times> float \<Rightarrow> float \<times> float" where
  "mean_loop (v # vals) (w # weights) (result, sum_weights) =
     mean_loop vals weights (fadd result (fmul v w), fadd sum_weights w)"
| "mean_loop vals weights acc = acc"

fun angle_loop :: "vec3 \<Rightarrow> vec3 list \<Rightarrow> float list \<Rightarrow> vec3 \<Rightarrow> vec3" where
  "angle_loop out_dir (d # directions) (w # weights) mean_dir =
     angle_loop out_dir directions weights
       (vadd mean_dir
          (vscale (vscale d w) (if flt (dot out_dir d) (Fin 0) then Fin (- 1) else Fin 1)))"
| "angle_loop out_dir directions weights mean_dir = mean_dir"

definition aggregate ::
  "projector \<Rightarrow> nat \<Rightarrow> nat \<Rightarrow> vec3 list \<Rightarrow> float list \<Rightarrow> float list \<Rightarrow> error + float" where
  "aggregate p out_index n directions vals weights =
     (case metric p of
        metric_SUM \<Rightarrow> Inr (sum_loop vals weights (Fin 0))
      | metric_MEAN \<Rightarrow>
          (case mean_loop vals weights (Fin 0, Fin 0) of
             (result, sum_weights) \<Rightarrow> Inr (fdiv result sum_weights))
      | metric_COUNT \<Rightarrow> Inr (float_of_nat n)
      | metric_ANGLE \<Rightarrow>
          if \<not> out_index < length (target_directions p) then Inl OutOfBounds
          else
            (let out_dir = target_directions p ! out_index;
                 mean_dir = normalize (angle_loop out_dir directions weights (Fin 0, Fin 0, Fin 0))
             in Inr (facos (dot out_dir mean_dir))))"

text \<open>\<open>output_data.index(0) = out_index; output_data.value() = v\<close>.\<close>

definition write_output :: "projector \<Rightarrow> nat \<Rightarrow> float \<Rightarrow> error + projector" where
  "write_output p out_index v =
     (if out_index < length (output_data p)
      then Inr (p\<lparr>output_data := (output_data p)[out_index := v]\<rparr>)
      else Inl OutOfBounds)"

text \<open>
  \<open>Projector::operator() (out_index)\<close>. The C++ returns \<open>true\<close> on every path; the model
  returns the projector with its output written.
\<close>

definition projector_call :: "projector \<Rightarrow> nat \<Rightarrow> error + projector" where
  "projector_call p out_index =
     (if \<not> out_index < mapping_size (correspondence p) then Inl AssertionFailed
      else
        let in_indices = M (correspondence p) ! out_index in
        if length in_indices = 0 then write_output p out_index (fill_value (fill p))
        else if 1 < length in_indices \<and> nan_many2one (fill p) then write_output p out_index NaN
        else
          (case gather p in_indices ([], [], []) of
             Inl e \<Rightarrow> Inl e
           | Inr None \<Rightarrow> write_output p out_index NaN
           | Inr (Some (directions, vals, weights)) \<Rightarrow>
               (case aggregate p out_index (length in_indices) directions vals weights of
                  Inl e \<Rightarrow> Inl e
                | Inr result \<Rightarrow> write_output p out_index result)))"

subsection \<open>Projector: inputs used in the examples\<close>

text \<open>
  One source fixel of value 5 and 257 target fixels, each of which lists that source
  fixel. The constructor's eight-bit counter for the source fixel goes round to 1.
\<close>

abbreviation (input) files_one_source :: projector_files where
  "files_one_source \<equiv>
     \<lparr>input_is_dir = False, input_is_data_file = True, input_file_data = [Fin 5],
      input_dir_directions = [(Fin 1, Fin 0, Fin 0)],
      output_dir_directions = replicate 257 (Fin 1, Fin 0, Fin 0)\<rparr>"

abbreviation (input) mapping_257_targets :: mapping where
  "mapping_257_targets \<equiv> \<lparr>source_fixels = 1, target_fixels = 257, M = replicate 257 [0]\<rparr>"

text \<open>
  The definition that follows the claims' words: the fan-out of a source fixel is the
  number of target fixels whose list contains it.
\<close>

definition fan_out :: "mapping \<Rightarrow> 32 word \<Rightarrow> nat" where
  "fan_out corr i = length (filter (\<lambda>in_indices. i \<in> set in_indices) (M corr))"

text \<open>Two source fixels of values 2 and 4, both assigned to the only target fixel.\<close>

abbreviation (input) files_two_sources :: projector_files where
  "files_two_sources \<equiv>
     \<lparr>input_is_dir = False, input_is_data_file = True, input_file_data = [Fin 2, Fin 4],
      input_dir_directions = [(Fin 1, Fin 0, Fin 0), (Fin 0, Fin 1, Fin 0)],
      output_dir_directions = [(Fin 1, Fin 0, Fin 0)]\<rparr>"

abbreviation (input) mapping_two_to_one :: mapping where
  "mapping_two_to_one \<equiv> \<lparr>source_fixels = 2, target_fixels = 1, M = [[0, 1]]\<rparr>"

abbreviation (input) projector_two_sources :: "projection_metric_t \<Rightarrow> fill_settings \<Rightarrow> projector" where
  "projector_two_sources met fill_set \<equiv>
     \<lparr>correspondence = mapping_two_to_one,
      metric = met,
      fill = fill_set,
      input_data = [Fin 2, Fin 4],
      implicit_weights = [Fin 1, Fin 1],
      explicit_weights = None,
      input_directions = [(Fin 1, Fin 0, Fin 0), (Fin 0, Fin 1, Fin 0)],
      target_directions = [(Fin 1, Fin 0, Fin 0)],
      output_data = [Fin 0]\<rparr>"

text \<open>A projector with two target fixels, the second of which has no source fixel.\<close>

abbreviation (input) projector_empty_target :: projector where
  "projector_empty_target \<equiv>
     \<lparr>correspondence = \<lparr>source_fixels = 1, target_fixels = 2, M = [[0], []]\<rparr>,
      metric = metric_ANGLE,
      fill = \<lparr>fill_value = Fin 7, nan_many2one = True, nan_one2many = True\<rparr>,
      input_data = [Fin 5],
      implicit_weights = [Fin 1],
      explicit_weights = None,
      input_directions = [(Fin 1, Fin 0, Fin 0)],
      target_directions = [(Fin 1, Fin 0, Fin 0), (Fin 0, Fin 1, Fin 0)],
      output_data = [Fin 0, Fin 0]\<rparr>"

text \<open>Fill settings without the many-to-one policy.\<close>

abbreviation (input) fill_without_many2one :: fill_settings where
  "fill_without_many2one \<equiv> \<lparr>fill_value = Fin 0, nan_many2one = False, nan_one2many = True\<rparr>"

section \<open>Fixel::Correspondence::DP2Cost (src/fixel/correspondence/dp2cost.h)\<close>

text \<open>
  \<open>std::tan (std::acos (dp))\<close> in \<open>double\<close>. The tangent has a pole at \<open>pi / 2\<close>, which is
  \<open>arccos 0\<close>; the C++ gets a large finite number there, because the \<open>double\<close> that
  \<open>std::acos (0.0)\<close> returns is not \<open>pi / 2\<close> exactly. That number is the parameter
  \<open>tan_acos_0\<close> (HOL's \<open>tan (pi / 2)\<close> is 0, by its division by zero).
\<close>

fun tan_acos :: "real \<Rightarrow> float \<Rightarrow> float" where
  "tan_acos tan_acos_0 (Fin x) =
     (if x = 0 then Fin tan_acos_0
      else if - 1 \<le> x \<and> x \<le> 1 then Fin (tan (arccos x))
      else NaN)"
| "tan_acos tan_acos_0 PInf = NaN"
| "tan_acos tan_acos_0 NInf = NaN"
| "tan_acos tan_acos_0 NaN = NaN"

record dp2cost =
  data :: "float list"
  multiplier :: float

text \<open>
  The constructor: \<open>resolution + 2\<close> entries; the entry of every \<open>bin\<close> from 0 to
  \<open>resolution\<close> is \<open>tan (acos (bin / resolution))\<close>, the last entry is 0.
\<close>

definition DP2Cost :: "real \<Rightarrow> nat \<Rightarrow> dp2cost" where
  "DP2Cost tan_acos_0 resolution =
     \<lparr>data = map (\<lambda>bin. tan_acos tan_acos_0 (fdiv (Fin (real bin)) (Fin (real resolution))))
                [0 ..< Suc resolution]
              @ [Fin 0],
      multiplier = float_of_nat resolution\<rparr>"

text \<open>
  \<open>operator() (dp)\<close>. \<open>lower\<close> is the floor of a float and so a float itself: its
  conversion back to \<open>float\<close> is exact. A read at or past \<open>data.size()\<close> is \<open>OutOfBounds\<close>.
\<close>

definition lower_index :: "dp2cost \<Rightarrow> float \<Rightarrow> nat option" where
  "lower_index c dp =
     (case fmul dp (multiplier c) of Fin position \<Rightarrow> Some (nat \<lfloor>position\<rfloor>) | _ \<Rightarrow> None)"

definition dp2cost_call :: "dp2cost \<Rightarrow> float \<Rightarrow> error + float" where
  "dp2cost_call c dp =
     (if \<not> (fle (Fin 0) dp \<and> fle dp (Fin 1)) then Inl AssertionFailed
      else
        (case lower_index c dp of
           None \<Rightarrow> Inl OutOfBounds
         | Some lower \<Rightarrow>
             let position = fmul dp (multiplier c);
                 mu = fadd position (fneg (Fin (real lower)))
             in if lower + 1 < length (data c)
                then Inr (fadd (fmul (fadd (Fin 1) (fneg mu)) (data c ! lower))
                               (fmul mu (data c ! (lower + 1))))
                else Inl OutOfBounds))"

section \<open>mrthreshold: the check of the threshold mechanisms (cmd/mrthreshold.cpp, run)\<close>

text \<open>
  The four options that select a mechanism, as the command line gives them: \<open>None\<close> when
  the option is absent. \<open>-abs\<close> and \<open>-percentile\<close> take a floating-point value
  (\<open>to<default_type>\<close> in core/mrtrix.h also reads \<open>inf\<close> and \<open>nan\<close>), \<open>-bottom\<close> and \<open>-top\<close>
  an integer.
\<close>

record threshold_options =
  opt_abs :: "float option"
  opt_percentile :: "float option"
  opt_bottom :: "int option"
  opt_top :: "int option"

text \<open>
  Modelled from the spec: \<open>get_option_value\<close> (core/app.h) is not among the sources, the
  spec treats command-line parsing as an external collaborator. It yields the default when
  the option is absent, and otherwise the value given with the option, converted and
  checked against the range that \<open>usage\<close> declares for the argument of the option: a value
  below the minimum or above the maximum is refused with an exception. The range is the
  second argument here (in the source it is found through the name of the option).
\<close>

definition get_option_value :: "'a option \<Rightarrow> ('a \<Rightarrow> bool) \<Rightarrow> 'a \<Rightarrow> error + 'a" where
  "get_option_value opt out_of_range default_value =
     (case opt of
        None \<Rightarrow> Inr default_value
      | Some v \<Rightarrow>
          if out_of_range v then Inl (Exception ''value supplied for option is out of bounds'')
          else Inr v)"

text \<open>
  The ranges of \<open>usage\<close> (cmd/mrthreshold.cpp, lines 72 to 82): \<open>type_float()\<close> for \<open>-abs\<close>,
  which is the range from minus infinity to infinity, \<open>type_float (0.0, 100.0)\<close> for
  \<open>-percentile\<close>, and \<open>type_integer (1)\<close> for \<open>-top\<close> and \<open>-bottom\<close>, which is the range from 1 to
  the largest 64-bit integer. The bounds are compared as floating-point values are, so that
  \<open>nan\<close> is inside every range of floats and \<open>inf\<close> is inside the range of \<open>-abs\<close> only.
\<close>

definition float_out_of_range :: "float \<Rightarrow> float \<Rightarrow> float \<Rightarrow> bool" where
  "float_out_of_range range_min range_max v \<longleftrightarrow> flt v range_min \<or> flt range_max v"

definition integer_out_of_range :: "int \<Rightarrow> int \<Rightarrow> int \<Rightarrow> bool" where
  "integer_out_of_range range_min range_max n \<longleftrightarrow> n < range_min \<or> range_max < n"

definition abs_out_of_range :: "float \<Rightarrow> bool" where
  "abs_out_of_range = float_out_of_range NInf PInf"

definition percentile_out_of_range :: "float \<Rightarrow> bool" where
  "percentile_out_of_range = float_out_of_range (Fin 0) (Fin 100)"

definition count_out_of_range :: "int \<Rightarrow> bool" where
  "count_out_of_range = integer_out_of_range 1 (2 ^ 63 - 1)"

text \<open>What \<open>run\<close> does to the outside, in order.\<close>

datatype event =
    Open_input_image
  | Open_mask_image
  | Create_output_image
  | Write_threshold_to_stdout

definition num_explicit_mechanisms :: "float \<Rightarrow> float \<Rightarrow> int \<Rightarrow> int \<Rightarrow> nat" where
  "num_explicit_mechanisms abs_value percentile bottom_value top_value =
     (if isfinite abs_value then 1 else 0) + (if isfinite percentile then 1 else 0)
     + (if 0 \<le> bottom_value then 1 else 0) + (if 0 \<le> top_value then 1 else 0)"

text \<open>
  \<open>run\<close> (the locals \<open>abs\<close>, \<open>bottom\<close> and \<open>top\<close> carry the suffix \<open>_value\<close>, since \<open>abs\<close>
  and \<open>top\<close> are constants of HOL): the option values, the check, \<open>Header::open\<close> of the input and the test for
  complex data. An exception of \<open>get_option_value\<close> leaves \<open>run\<close> at once. What follows in the
  source (the mask, \<open>execute\<close>, the warnings; lines 418 to 467) works on images; its events
  and its result are the parameter \<open>remainder\<close>.
\<close>

definition run ::
  "threshold_options \<Rightarrow> bool \<Rightarrow> event list \<times> (error + unit) \<Rightarrow> event list \<times> (error + unit)" where
  "run opts input_is_complex remainder =
     (case get_option_value (opt_abs opts) abs_out_of_range NaN of
        Inl e \<Rightarrow> ([], Inl e)
      | Inr abs_value \<Rightarrow>
     (case get_option_value (opt_percentile opts) percentile_out_of_range NaN of
        Inl e \<Rightarrow> ([], Inl e)
      | Inr percentile \<Rightarrow>
     (case get_option_value (opt_bottom opts) count_out_of_range (- 1) of
        Inl e \<Rightarrow> ([], Inl e)
      | Inr bottom_value \<Rightarrow>
     (case get_option_value (opt_top opts) count_out_of_range (- 1) of
        Inl e \<Rightarrow> ([], Inl e)
      | Inr top_value \<Rightarrow>
        if 1 < num_explicit_mechanisms abs_value percentile bottom_value top_value
        then ([], Inl (Exception ''Cannot specify more than one mechanism for threshold selection''))
        else if input_is_complex
        then ([Open_input_image],
              Inl (Exception ''Cannot perform thresholding directly on complex image data''))
        else (Open_input_image # fst remainder, snd remainder)))))"

text \<open>
  The definition that follows the claim's words: the number of mechanisms requested is the
  number of the four options present on the command line.
\<close>

definition mechanisms_requested :: "threshold_options \<Rightarrow> nat" where
  "mechanisms_requested opts =
     (if opt_abs opts = None then 0 else 1) + (if opt_percentile opts = None then 0 else 1)
     + (if opt_bottom opts = None then 0 else 1) + (if opt_top opts = None then 0 else 1)"

section \<open>Math::binomial (core/math/binomial.h)\<close>

text \<open>
  The function is named \<open>math_binomial\<close> here, since \<open>binomial\<close> is HOL's own
  binomial coefficient (written \<open>n choose k\<close>).
  The template arguments \<open>N\<close> and \<open>K\<close> are integer types; the function is used on
  non-negative values, which are modelled as \<open>nat\<close>. The accumulator \<open>result\<close> is a
  \<open>uint64_t\<close>, modelled as a 64-bit word so that the product wraps as in C++. The
  quotient \<open>(n-i+1) / i\<close> is an integer division in the source and is \<open>div\<close> here;
  inside the loop \<open>i \<le> k \<le> n\<close> holds, so the subtraction never goes below zero.
\<close>

function binomial_loop :: "nat \<Rightarrow> nat \<Rightarrow> nat \<Rightarrow> 64 word \<Rightarrow> 64 word" where
  "binomial_loop n k i result =
     (if i \<le> k then binomial_loop n k (Suc i) (result * of_nat ((n - i + 1) div i))
      else result)"
  by pat_completeness auto
termination
  by (relation "measure (\<lambda>(n, k, i, result). Suc k - i)") auto

definition math_binomial :: "nat \<Rightarrow> nat \<Rightarrow> 64 word" where
  "math_binomial n k =
     (if k > n then 0
      else let k' = (if k * 2 > n then n - k else k) in
        if k' = 0 then 1
        else binomial_loop n k' 2 (of_nat n))"

section \<open>Theorems\<close>

subsection \<open>Conversion to float\<close>

lemma round_to_float_exact: "n < 2 ^ 24 \<Longrightarrow> round_to_float n = n"
  by (simp add: round_to_float_def)

lemma float_of_nat_exact [simp]: "n < 2 ^ 24 \<Longrightarrow> float_of_nat n = Fin (real n)"
  by (simp add: float_of_nat_def round_to_float_exact)

subsection \<open>Math::binomial\<close>

text \<open>
  C10. The claim is that \<open>Math::binomial (n, k)\<close> is the binomial coefficient for all
  \<open>k \<le> n\<close>. The loop multiplies by the integer quotient \<open>(n-i+1) / i\<close>, which truncates:
  for \<open>n = 4\<close> and \<open>k = 2\<close> the only iteration multiplies 4 by \<open>3 / 2 = 1\<close>, and the
  function returns 4, whereas four-choose-two is 6.
\<close>

theorem math_binomial_4_2_is_4:
  "math_binomial 4 2 = 4 \<and> (4 choose 2) = (6 :: nat) \<and> unat (math_binomial 4 2) \<noteq> (4 choose 2)"
proof -
  have loop: "binomial_loop 4 2 2 4 = 4"
    by code_simp
  have b: "math_binomial 4 2 = 4"
    using loop by (simp add: math_binomial_def)
  have c: "(4 choose 2) = (6 :: nat)"
    by (simp add: binomial_eq_0 numeral_2_eq_2 numeral_eq_Suc)
  show ?thesis using b c by simp
qed

subsection \<open>Mapping\<close>

text \<open>
  C7. A mapping constructed for \<open>(source_fixels, target_fixels)\<close> has \<open>size()\<close> equal to
  \<open>target_fixels\<close> and every entry empty. An assignment through \<open>operator[]\<close> at an index
  within range replaces the sequence at that index only and keeps the outer length; at an
  index out of range the assertion of the \<open>Value\<close> constructor fails.
\<close>

theorem Mapping_outer_length_fixed:
  "mapping_size (Mapping s t) = unat t
   \<and> (\<forall>i < unat t. value_get (Mapping s t) i = Inr [])
   \<and> (index < mapping_size m \<longrightarrow>
        (\<exists>m'. value_assign m index in_indices = Inr m'
           \<and> mapping_size m' = mapping_size m
           \<and> M m' ! index = in_indices
           \<and> (\<forall>j. j \<noteq> index \<longrightarrow> M m' ! j = M m ! j)))
   \<and> (\<not> index < mapping_size m \<longrightarrow> value_assign m index in_indices = Inl AssertionFailed)"
  by (simp add: Mapping_def mapping_size_def value_get_def value_assign_def Value_def)

theorem Mapping_outer_length_fixed_witness:
  "mapping_size (Mapping 5 3) = 3
   \<and> value_get (Mapping 5 3) 1 = Inr []
   \<and> (\<exists>m'. value_assign (Mapping 5 3) 1 [4, 2] = Inr m'
         \<and> mapping_size m' = 3 \<and> M m' ! 1 = [4, 2] \<and> M m' ! 0 = [] \<and> M m' ! 2 = [])
   \<and> value_assign (Mapping 5 3) 3 [4] = Inl AssertionFailed"
proof -
  have size: "mapping_size (Mapping 5 3) = 3"
    by (simp add: Mapping_def mapping_size_def)
  have in_range: "(1::nat) < mapping_size (Mapping 5 3)"
    using size by simp
  have out_of_range: "\<not> (3::nat) < mapping_size (Mapping 5 3)"
    using size by simp
  note a = Mapping_outer_length_fixed [of 5 3 1 "Mapping 5 3" "[4, 2]"]
  note b = Mapping_outer_length_fixed [of 5 3 3 "Mapping 5 3" "[4]"]
  from a in_range obtain m' where m':
    "value_assign (Mapping 5 3) 1 [4, 2] = Inr m'" "mapping_size m' = mapping_size (Mapping 5 3)"
    "M m' ! 1 = [4, 2]" "\<forall>j. j \<noteq> 1 \<longrightarrow> M m' ! j = M (Mapping 5 3) ! j"
    by blast
  have tbl: "M (Mapping 5 3) = [[], [], []]"
    by (simp add: Mapping_def) (simp add: numeral_3_eq_3)
  have others: "M m' ! 0 = []" "M m' ! 2 = []"
    using m'(4) tbl by simp_all
  have get: "value_get (Mapping 5 3) 1 = Inr []"
    using a by simp
  have fail: "value_assign (Mapping 5 3) 3 [4] = Inl AssertionFailed"
    using b out_of_range by blast
  show ?thesis
    using size get m' others fail by auto
qed

subsection \<open>Mapping: save and load\<close>

lemma read_build_index:
  "map (\<lambda>(count, offset). take count (drop offset (pre @ concat xss)))
     (build_index xss (length pre)) = xss"
proof (induction xss arbitrary: pre)
  case Nil
  then show ?case by simp
next
  case (Cons xs xss)
  have "map (\<lambda>(count, offset). take count (drop offset ((pre @ xs) @ concat xss)))
          (build_index xss (length (pre @ xs))) = xss"
    by (rule Cons.IH)
  then show ?case by simp
qed

lemma read_write_entries: "read_entries (write_entries n entries) = entries"
  using read_build_index [of "[]" entries] by (simp add: read_entries_def write_entries_def)

text \<open>
  C1. \<open>save\<close> followed by \<open>load\<close> (with \<open>import_inverse\<close> false) of the same directory gives a
  mapping with the same number of target fixels and, for every target index, the same
  sequence of source indices in the same order; whether the inverse was exported alongside
  makes no difference.
\<close>

theorem save_load_round_trip:
  "\<exists>m'. load directory False (save directory export_inverse m fs) = Inr m'
      \<and> mapping_size m' = mapping_size m
      \<and> M m' = M m
      \<and> (\<forall>i < mapping_size m. value_get m' i = value_get m i)"
  by (simp add: load_def save_def read_write_entries mapping_size_def value_get_def Value_def
      Let_def)

theorem save_load_round_trip_witness:
  "\<exists>m'. load ''out'' False
          (save ''out'' True \<lparr>source_fixels = 3, target_fixels = 3, M = [[2, 0], [], [1]]\<rparr> Map.empty)
        = Inr m'
      \<and> mapping_size m' = 3
      \<and> value_get m' 0 = Inr [2, 0] \<and> value_get m' 1 = Inr [] \<and> value_get m' 2 = Inr [1]"
proof -
  from save_load_round_trip
    [of "''out''" True "\<lparr>source_fixels = 3, target_fixels = 3, M = [[2, 0], [], [1]]\<rparr>" Map.empty]
  obtain m' where m':
    "load ''out'' False
       (save ''out'' True \<lparr>source_fixels = 3, target_fixels = 3, M = [[2, 0], [], [1]]\<rparr> Map.empty)
     = Inr m'"
    "mapping_size m' = mapping_size \<lparr>source_fixels = 3, target_fixels = 3, M = [[2, 0], [], [1]]\<rparr>"
    "M m' = M \<lparr>source_fixels = 3, target_fixels = 3, M = [[2, 0], [], [1]]\<rparr>"
    by blast
  have "mapping_size m' = 3"
    using m'(2) by (simp add: mapping_size_def)
  moreover have "value_get m' 0 = Inr [2, 0]" "value_get m' 1 = Inr []" "value_get m' 2 = Inr [1]"
    using m'(3) by (simp_all add: value_get_def Value_def)
  ultimately show ?thesis
    using m'(1) by blast
qed

subsection \<open>Projector: the constructor\<close>

lemma count_objectives_length:
  "count_objectives xs obj = Inr obj' \<Longrightarrow> length obj' = length obj"
  by (induction xs arbitrary: obj) (auto split: if_splits)

lemma count_objectives_nth:
  "count_objectives xs obj = Inr obj' \<Longrightarrow> unat i < length obj \<Longrightarrow>
     obj' ! unat i = obj ! unat i + of_nat (count_list xs i)"
proof (induction xs arbitrary: obj)
  case Nil
  then show ?case by simp
next
  case (Cons j xs)
  from Cons.prems(1) have j: "unat j < length obj"
    and rest: "count_objectives xs (obj[unat j := obj ! unat j + 1]) = Inr obj'"
    by (auto split: if_splits)
  have "obj' ! unat i = (obj[unat j := obj ! unat j + 1]) ! unat i + of_nat (count_list xs i)"
    using Cons.IH [OF rest] Cons.prems(2) by simp
  moreover have "j \<noteq> i \<Longrightarrow> unat j \<noteq> unat i"
    by (simp add: word_unat_eq_iff)
  ultimately show ?case
    using j Cons.prems(2) by (cases "j = i") (auto simp: nth_list_update)
qed

lemma count_objectives_in_range:
  "count_objectives xs obj = Inr obj' \<Longrightarrow> i \<in> set xs \<Longrightarrow> unat i < length obj"
proof (induction xs arbitrary: obj)
  case Nil
  then show ?case by simp
next
  case (Cons j xs)
  from Cons.prems(1) have j: "unat j < length obj"
    and rest: "count_objectives xs (obj[unat j := obj ! unat j + 1]) = Inr obj'"
    by (auto split: if_splits)
  show ?case
  proof (cases "i = j")
    case True
    then show ?thesis using j by simp
  next
    case False
    then have "i \<in> set xs" using Cons.prems(2) by simp
    then show ?thesis using Cons.IH [OF rest] by simp
  qed
qed

lemma objectives_per_source_fixel_length:
  "objectives_per_source_fixel xss obj = Inr obj' \<Longrightarrow> length obj' = length obj"
  by (induction xss arbitrary: obj) (auto split: sum.splits dest: count_objectives_length)

lemma objectives_per_source_fixel_nth:
  "objectives_per_source_fixel xss obj = Inr obj' \<Longrightarrow> unat i < length obj \<Longrightarrow>
     obj' ! unat i = obj ! unat i + of_nat (count_list (concat xss) i)"
proof (induction xss arbitrary: obj)
  case Nil
  then show ?case by simp
next
  case (Cons xs xss)
  from Cons.prems(1) obtain mid where mid: "count_objectives xs obj = Inr mid"
    and rest: "objectives_per_source_fixel xss mid = Inr obj'"
    by (auto split: sum.splits)
  have len: "length mid = length obj"
    using mid by (rule count_objectives_length)
  have "obj' ! unat i = mid ! unat i + of_nat (count_list (concat xss) i)"
    using Cons.IH [OF rest] Cons.prems(2) len by simp
  moreover have "mid ! unat i = obj ! unat i + of_nat (count_list xs i)"
    using count_objectives_nth [OF mid Cons.prems(2)] .
  ultimately show ?case by simp
qed

lemma objectives_per_source_fixel_in_range:
  "objectives_per_source_fixel xss obj = Inr obj' \<Longrightarrow> xs \<in> set xss \<Longrightarrow> i \<in> set xs \<Longrightarrow>
     unat i < length obj"
proof (induction xss arbitrary: obj)
  case Nil
  then show ?case by simp
next
  case (Cons ys xss)
  from Cons.prems(1) obtain mid where mid: "count_objectives ys obj = Inr mid"
    and rest: "objectives_per_source_fixel xss mid = Inr obj'"
    by (auto split: sum.splits)
  have len: "length mid = length obj"
    using mid by (rule count_objectives_length)
  show ?case
  proof (cases "xs = ys")
    case True
    then show ?thesis using count_objectives_in_range [OF mid] Cons.prems(3) by simp
  next
    case False
    then have "xs \<in> set xss" using Cons.prems(2) by simp
    then show ?thesis using Cons.IH [OF rest _ Cons.prems(3)] len by simp
  qed
qed

lemma Projector_fields:
  assumes "Projector files corr met fill_set weights = Inr p"
  shows "correspondence p = corr" and "metric p = met" and "fill p = fill_set"
    and "input_data p = input_file_data files" and "explicit_weights p = weights"
    and "input_directions p = input_dir_directions files"
    and "target_directions p = output_dir_directions files"
    and "length (output_data p) = mapping_size corr"
    and "length (target_directions p) = mapping_size corr"
    and "length (implicit_weights p) = length (input_file_data files)"
  using assms
  by (auto simp: Projector_def split: if_splits sum.splits option.splits
      dest: objectives_per_source_fixel_length)

lemma Projector_implicit_weight:
  assumes "Projector files corr met fill_set weights = Inr p"
    and "unat i < length (input_file_data files)"
  shows "implicit_weights p ! unat i = implicit_weight (of_nat (count_list (concat (M corr)) i))"
proof -
  from assms(1) obtain objectives where
    obj: "objectives_per_source_fixel (M corr) (replicate (length (input_file_data files)) 0) = Inr objectives"
    and iw: "implicit_weights p = map implicit_weight objectives"
    by (auto simp: Projector_def split: if_splits sum.splits option.splits)
  have len: "length objectives = length (input_file_data files)"
    using objectives_per_source_fixel_length [OF obj] by simp
  have "objectives ! unat i = of_nat (count_list (concat (M corr)) i)"
    using objectives_per_source_fixel_nth [OF obj, of i] assms(2) by simp
  then show ?thesis
    using iw len assms(2) by simp
qed

lemma Projector_indices_in_range:
  assumes "Projector files corr met fill_set weights = Inr p"
    and "xs \<in> set (M corr)" and "i \<in> set xs"
  shows "unat i < length (input_file_data files)"
proof -
  from assms(1) obtain objectives where
    obj: "objectives_per_source_fixel (M corr) (replicate (length (input_file_data files)) 0) = Inr objectives"
    by (auto simp: Projector_def split: if_splits sum.splits option.splits)
  show ?thesis
    using objectives_per_source_fixel_in_range [OF obj assms(2,3)] by simp
qed

lemma objectives_replicate:
  "0 < length obj \<Longrightarrow>
     objectives_per_source_fixel (replicate n [0]) obj = Inr (obj[0 := obj ! 0 + of_nat n])"
  by (induction n arbitrary: obj) (simp_all add: algebra_simps)

lemma implicit_weight_one: "implicit_weight 1 = Fin 1"
  by (simp add: implicit_weight_def)

subsection \<open>Projector: operator()\<close>

text \<open>
  C2. For a target fixel whose list in the mapping is empty, \<open>operator()\<close> writes the fill
  value at the position of that fixel and nothing else. Neither the metric nor the two
  policy flags enter: they are arbitrary fields of \<open>p\<close>. The last hypothesis holds for every
  projector the constructor builds (\<open>Projector_fields\<close>).
\<close>

theorem empty_assignment_receives_fill_value:
  assumes "out_index < mapping_size (correspondence p)"
    and "M (correspondence p) ! out_index = []"
    and "length (output_data p) = mapping_size (correspondence p)"
  shows "projector_call p out_index =
           Inr (p\<lparr>output_data := (output_data p)[out_index := fill_value (fill p)]\<rparr>)
         \<and> (output_data p)[out_index := fill_value (fill p)] ! out_index = fill_value (fill p)"
  using assms by (simp add: projector_call_def write_output_def)

theorem empty_assignment_receives_fill_value_witness:
  "Projector
     \<lparr>input_is_dir = False, input_is_data_file = True, input_file_data = [Fin 5],
      input_dir_directions = [(Fin 1, Fin 0, Fin 0)],
      output_dir_directions = [(Fin 1, Fin 0, Fin 0), (Fin 0, Fin 1, Fin 0)]\<rparr>
     \<lparr>source_fixels = 1, target_fixels = 2, M = [[0], []]\<rparr>
     metric_ANGLE \<lparr>fill_value = Fin 7, nan_many2one = True, nan_one2many = True\<rparr> None
     = Inr projector_empty_target
   \<and> 1 < mapping_size (correspondence projector_empty_target)
   \<and> M (correspondence projector_empty_target) ! 1 = []
   \<and> length (output_data projector_empty_target) = mapping_size (correspondence projector_empty_target)
   \<and> projector_call projector_empty_target 1
       = Inr (projector_empty_target\<lparr>output_data := [Fin 0, Fin 7]\<rparr>)"
proof -
  have ctor: "Projector
     \<lparr>input_is_dir = False, input_is_data_file = True, input_file_data = [Fin 5],
      input_dir_directions = [(Fin 1, Fin 0, Fin 0)],
      output_dir_directions = [(Fin 1, Fin 0, Fin 0), (Fin 0, Fin 1, Fin 0)]\<rparr>
     \<lparr>source_fixels = 1, target_fixels = 2, M = [[0], []]\<rparr>
     metric_ANGLE \<lparr>fill_value = Fin 7, nan_many2one = True, nan_one2many = True\<rparr> None
     = Inr projector_empty_target"
    by (simp add: Projector_def mapping_size_def implicit_weight_def)
  have h1: "1 < mapping_size (correspondence projector_empty_target)"
    by (simp add: mapping_size_def)
  have h2: "M (correspondence projector_empty_target) ! 1 = []"
    by simp
  have h3: "length (output_data projector_empty_target) = mapping_size (correspondence projector_empty_target)"
    by (simp add: mapping_size_def)
  show ?thesis
    using ctor h1 h2 h3 empty_assignment_receives_fill_value [OF h1 h2 h3] by simp
qed

subsection \<open>Projector: source fixels listed fewer than 256 times\<close>

text \<open>
  While the constructor's counter has not wrapped, the implicit weight of a source fixel
  is one over the number of times the mapping lists it (its fan-out, when no list names a
  source fixel twice), \<open>nan_one2many\<close> flags every target fixel of a source fixel listed more
  than once, and the sum runs over the values times these weights.
\<close>

lemma implicit_weight_count:
  assumes "0 < n" and "n < 256"
  shows "implicit_weight (of_nat n) = Fin (1 / real n)"
proof -
  have u: "unat (of_nat n :: 8 word) = n"
    using assms(2) by (simp add: unat_of_nat)
  then have "(of_nat n :: 8 word) \<noteq> 0"
    using assms(1) by (metis unat_0 less_numeral_extra(3))
  then show ?thesis
    using u assms by (simp add: implicit_weight_def)
qed

lemma gather_collects:
  assumes "\<forall>i \<in> set xs. unat i < length (implicit_weights p) \<and> unat i < length (input_directions p)
             \<and> unat i < length (input_data p)
             \<and> (\<forall>ew. explicit_weights p = Some ew \<longrightarrow> unat i < length ew)"
    and "\<forall>i \<in> set xs. \<not> (nan_one2many (fill p) \<and> flt (implicit_weights p ! unat i) (Fin 1))"
  shows "gather p xs (directions, vals, weights) =
           Inr (Some (directions @ map (\<lambda>i. input_directions p ! unat i) xs,
                      vals @ map (\<lambda>i. input_data p ! unat i) xs,
                      weights @ map (\<lambda>i. case explicit_weights p of
                                             None \<Rightarrow> implicit_weights p ! unat i
                                           | Some ew \<Rightarrow> fmul (implicit_weights p ! unat i) (ew ! unat i)) xs))"
  using assms
proof (induction xs arbitrary: directions vals weights)
  case Nil
  then show ?case by simp
next
  case (Cons i xs)
  show ?case
  proof (cases "explicit_weights p")
    case None
    then show ?thesis using Cons by simp
  next
    case (Some ew)
    then show ?thesis using Cons by simp
  qed
qed

lemma gather_flags:
  assumes "\<forall>i \<in> set xs. unat i < length (implicit_weights p) \<and> unat i < length (input_directions p)
             \<and> unat i < length (input_data p)
             \<and> (\<forall>ew. explicit_weights p = Some ew \<longrightarrow> unat i < length ew)"
    and "nan_one2many (fill p)"
    and "\<exists>i \<in> set xs. flt (implicit_weights p ! unat i) (Fin 1)"
  shows "gather p xs acc = Inr None"
  using assms
proof (induction xs arbitrary: acc)
  case Nil
  then show ?case by simp
next
  case (Cons i xs)
  obtain directions vals weights where acc: "acc = (directions, vals, weights)"
    by (cases acc) auto
  show ?case
  proof (cases "flt (implicit_weights p ! unat i) (Fin 1)")
    case True
    then show ?thesis using Cons.prems acc by simp
  next
    case False
    then have "\<exists>j \<in> set xs. flt (implicit_weights p ! unat j) (Fin 1)"
      using Cons.prems(3) by auto
    then have "gather p xs acc' = Inr None" for acc'
      using Cons.IH Cons.prems(1,2) by simp
    then show ?thesis
      using False Cons.prems(1) acc by (cases "explicit_weights p") simp_all
  qed
qed

lemma sum_loop_map:
  "sum_loop (map f xs) (map g xs) result = foldl (\<lambda>r i. fadd r (fmul (f i) (g i))) result xs"
  by (induction xs arbitrary: result) simp_all

lemma mean_loop_map:
  "mean_loop (map f xs) (map g xs) (result, sum_weights) =
     (foldl (\<lambda>r i. fadd r (fmul (f i) (g i))) result xs, foldl (\<lambda>r i. fadd r (g i)) sum_weights xs)"
  by (induction xs arbitrary: result sum_weights) simp_all

lemma Projector_reads_in_range:
  assumes ctor: "Projector files corr met fill_set weights = Inr p"
    and dirs: "length (input_dir_directions files) = length (input_file_data files)"
    and idx: "out_index < mapping_size corr"
  shows "\<forall>i \<in> set (M corr ! out_index).
           unat i < length (implicit_weights p) \<and> unat i < length (input_directions p)
           \<and> unat i < length (input_data p)
           \<and> (\<forall>ew. explicit_weights p = Some ew \<longrightarrow> unat i < length ew)"
proof
  fix i assume i: "i \<in> set (M corr ! out_index)"
  note f = Projector_fields [OF ctor]
  have mem: "M corr ! out_index \<in> set (M corr)"
    using idx by (simp add: mapping_size_def)
  have r: "unat i < length (input_file_data files)"
    by (rule Projector_indices_in_range [OF ctor mem i])
  have "length ew = length (input_file_data files)" if "weights = Some ew" for ew
    using ctor that by (auto simp: Projector_def split: if_splits)
  then show "unat i < length (implicit_weights p) \<and> unat i < length (input_directions p)
           \<and> unat i < length (input_data p)
           \<and> (\<forall>ew. explicit_weights p = Some ew \<longrightarrow> unat i < length ew)"
    using f r dirs by simp
qed

lemma count_positive:
  assumes "out_index < mapping_size corr" and "i \<in> set (M corr ! out_index)"
  shows "0 < count_list (concat (M corr)) i"
proof -
  have "M corr ! out_index \<in> set (M corr)"
    using assms(1) by (simp add: mapping_size_def)
  then have "i \<in> set (concat (M corr))"
    using assms(2) by auto
  then show ?thesis
    using count_list_0_iff [of "concat (M corr)" i] by auto
qed

lemma Projector_weight_below_256:
  assumes ctor: "Projector files corr met fill_set weights = Inr p"
    and idx: "out_index < mapping_size corr"
    and i: "i \<in> set (M corr ! out_index)"
    and small: "count_list (concat (M corr)) i < 256"
  shows "implicit_weights p ! unat i = Fin (1 / real (count_list (concat (M corr)) i))"
proof -
  have mem: "M corr ! out_index \<in> set (M corr)"
    using idx by (simp add: mapping_size_def)
  have r: "unat i < length (input_file_data files)"
    by (rule Projector_indices_in_range [OF ctor mem i])
  show ?thesis
    using Projector_implicit_weight [OF ctor r] count_positive [OF idx i] small
    by (simp add: implicit_weight_count)
qed

lemma nan_many2one_flagged:
  assumes "out_index < mapping_size (correspondence p)"
    and "1 < length (M (correspondence p) ! out_index)"
    and "nan_many2one (fill p)"
    and "length (output_data p) = mapping_size (correspondence p)"
  shows "projector_call p out_index = Inr (p\<lparr>output_data := (output_data p)[out_index := NaN]\<rparr>)"
  using assms by (auto simp: projector_call_def write_output_def Let_def)

lemma nan_one2many_flagged_below_256:
  assumes ctor: "Projector files corr met fill_set weights = Inr p"
    and dirs: "length (input_dir_directions files) = length (input_file_data files)"
    and idx: "out_index < mapping_size corr"
    and policy: "nan_one2many fill_set"
    and a: "a \<in> set (M corr ! out_index)"
    and shared: "1 < count_list (concat (M corr)) a"
    and small: "count_list (concat (M corr)) a < 256"
  shows "projector_call p out_index = Inr (p\<lparr>output_data := (output_data p)[out_index := NaN]\<rparr>)"
proof -
  note f = Projector_fields [OF ctor]
  have w: "implicit_weights p ! unat a = Fin (1 / real (count_list (concat (M corr)) a))"
    by (rule Projector_weight_below_256 [OF ctor idx a small])
  have "flt (implicit_weights p ! unat a) (Fin 1)"
    using shared by (simp add: w)
  then have "\<exists>i \<in> set (M corr ! out_index). flt (implicit_weights p ! unat i) (Fin 1)"
    using a by blast
  then have g: "gather p (M corr ! out_index) ([], [], []) = Inr None"
    using Projector_reads_in_range [OF ctor dirs idx] policy f(3)
    by (intro gather_flags) simp_all
  have "M corr ! out_index \<noteq> []"
    using a by auto
  then show ?thesis
    using f idx g by (simp add: projector_call_def write_output_def Let_def)
qed

lemma weights_below_256:
  assumes ctor: "Projector files corr met fill_set weights = Inr p"
    and dirs: "length (input_dir_directions files) = length (input_file_data files)"
    and idx: "out_index < mapping_size corr"
    and one2many: "nan_one2many fill_set \<longrightarrow>
                     (\<forall>i \<in> set (M corr ! out_index). count_list (concat (M corr)) i = 1)"
    and small: "\<forall>i \<in> set (M corr ! out_index). count_list (concat (M corr)) i < 256"
  shows "gather p (M corr ! out_index) ([], [], []) =
           Inr (Some (map (\<lambda>i. input_dir_directions files ! unat i) (M corr ! out_index),
                      map (\<lambda>i. input_file_data files ! unat i) (M corr ! out_index),
                      map (\<lambda>i. case weights of
                                  None \<Rightarrow> Fin (1 / real (count_list (concat (M corr)) i))
                                | Some ew \<Rightarrow> fmul (Fin (1 / real (count_list (concat (M corr)) i)))
                                               (ew ! unat i))
                          (M corr ! out_index)))"
proof -
  note f = Projector_fields [OF ctor]
  have w: "implicit_weights p ! unat i = Fin (1 / real (count_list (concat (M corr)) i))"
    if "i \<in> set (M corr ! out_index)" for i
    using Projector_weight_below_256 [OF ctor idx that] small that by simp
  have quiet: "\<forall>i \<in> set (M corr ! out_index).
                 \<not> (nan_one2many (fill p) \<and> flt (implicit_weights p ! unat i) (Fin 1))"
    using one2many f(3) by (auto simp: w)
  have "gather p (M corr ! out_index) ([], [], []) =
           Inr (Some ([] @ map (\<lambda>i. input_directions p ! unat i) (M corr ! out_index),
                      [] @ map (\<lambda>i. input_data p ! unat i) (M corr ! out_index),
                      [] @ map (\<lambda>i. case explicit_weights p of
                                        None \<Rightarrow> implicit_weights p ! unat i
                                      | Some ew \<Rightarrow> fmul (implicit_weights p ! unat i) (ew ! unat i))
                                (M corr ! out_index)))"
    by (rule gather_collects [OF Projector_reads_in_range [OF ctor dirs idx] quiet])
  moreover have "map (\<lambda>i. case explicit_weights p of
                             None \<Rightarrow> implicit_weights p ! unat i
                           | Some ew \<Rightarrow> fmul (implicit_weights p ! unat i) (ew ! unat i))
                     (M corr ! out_index)
               = map (\<lambda>i. case weights of
                             None \<Rightarrow> Fin (1 / real (count_list (concat (M corr)) i))
                           | Some ew \<Rightarrow> fmul (Fin (1 / real (count_list (concat (M corr)) i)))
                                          (ew ! unat i))
                     (M corr ! out_index)"
    using f(5) by (intro map_cong) (simp_all add: w split: option.splits)
  ultimately show ?thesis
    using f by simp
qed

lemma weighted_sum_below_256:
  assumes ctor: "Projector files corr metric_SUM fill_set weights = Inr p"
    and dirs: "length (input_dir_directions files) = length (input_file_data files)"
    and idx: "out_index < mapping_size corr"
    and some: "M corr ! out_index \<noteq> []"
    and many2one: "\<not> (1 < length (M corr ! out_index) \<and> nan_many2one fill_set)"
    and one2many: "nan_one2many fill_set \<longrightarrow>
                     (\<forall>i \<in> set (M corr ! out_index). count_list (concat (M corr)) i = 1)"
    and small: "\<forall>i \<in> set (M corr ! out_index). count_list (concat (M corr)) i < 256"
  shows "projector_call p out_index =
           Inr (p\<lparr>output_data := (output_data p)
                  [out_index :=
                     foldl (\<lambda>result i.
                              fadd result
                                (fmul (input_file_data files ! unat i)
                                   (case weights of
                                      None \<Rightarrow> Fin (1 / real (count_list (concat (M corr)) i))
                                    | Some ew \<Rightarrow>
                                        fmul (Fin (1 / real (count_list (concat (M corr)) i)))
                                          (ew ! unat i))))
                           (Fin 0) (M corr ! out_index)]\<rparr>)"
proof -
  note f = Projector_fields [OF ctor]
  note g = weights_below_256 [OF ctor dirs idx one2many small]
  show ?thesis
    using f idx some many2one g
    by (auto simp: projector_call_def write_output_def aggregate_def sum_loop_map Let_def)
qed

text \<open>
  C3. The claim: with \<open>nan_many2one\<close> set, a target fixel with more than one source fixel
  receives NaN; with \<open>nan_one2many\<close> set, so does every target fixel one of whose source
  fixels also contributes to another target fixel. The second part fails where the
  constructor's \<open>uint8_t\<close> counter wraps: a source fixel listed by 257 target fixels is
  counted once, its implicit weight is 1, the test \<open>implicit_weights.value() < 1.0f\<close> is
  false, and the target fixel receives the sum (here the value 5) instead of NaN. Below 256
  listings the claim holds (\<open>nan_many2one_flagged\<close>, \<open>nan_one2many_flagged_below_256\<close>).
\<close>

theorem one2many_missed_at_257_targets:
  "\<exists>p p'. Projector files_one_source mapping_257_targets metric_SUM
             \<lparr>fill_value = Fin 0, nan_many2one = False, nan_one2many = True\<rparr> None = Inr p
     \<and> fan_out mapping_257_targets 0 = 257
     \<and> implicit_weights p = [Fin 1]
     \<and> projector_call p 0 = Inr p'
     \<and> output_data p' ! 0 = Fin 5"
  by (simp add: Projector_def mapping_size_def objectives_replicate implicit_weight_def
      projector_call_def write_output_def aggregate_def fan_out_def)

text \<open>
  C4. The claim: a source fixel contributes with the weight one over its fan-out (times
  the explicit weight, if any). For the source fixel listed by 257 target fixels the
  counter has wrapped to 1, the weight collected by \<open>operator()\<close> is 1 rather than 1/257,
  and the sum for a target fixel is 5 where the claim gives 5/257. Below 256 listings the
  claim holds (\<open>weights_below_256\<close>, \<open>weighted_sum_below_256\<close>).
\<close>

theorem weight_is_one_at_257_targets:
  "\<exists>p p'. Projector files_one_source mapping_257_targets metric_SUM
             \<lparr>fill_value = Fin 0, nan_many2one = False, nan_one2many = False\<rparr> None = Inr p
     \<and> fan_out mapping_257_targets 0 = 257
     \<and> gather p [0] ([], [], []) = Inr (Some ([(Fin 1, Fin 0, Fin 0)], [Fin 5], [Fin 1]))
     \<and> projector_call p 0 = Inr p'
     \<and> output_data p' ! 0 = Fin 5
     \<and> fmul (Fin 5) (fdiv (Fin 1) (Fin (real (fan_out mapping_257_targets 0)))) = Fin (5 / 257)"
  by (simp add: Projector_def mapping_size_def objectives_replicate implicit_weight_def
      projector_call_def write_output_def aggregate_def fan_out_def)

text \<open>
  C8. As the claim states it, a target fixel with two source fixels of values 2 and 4
  yields 3 under the metric mean. With the policy \<open>nan_many2one\<close> set, \<open>operator()\<close> leaves
  before any aggregation and writes NaN.
\<close>

theorem two_sources_nan_many2one_counterexample:
  "Projector files_two_sources mapping_two_to_one metric_MEAN
     \<lparr>fill_value = Fin 0, nan_many2one = True, nan_one2many = False\<rparr> None
     = Inr (projector_two_sources metric_MEAN \<lparr>fill_value = Fin 0, nan_many2one = True, nan_one2many = False\<rparr>)
   \<and> projector_call
        (projector_two_sources metric_MEAN \<lparr>fill_value = Fin 0, nan_many2one = True, nan_one2many = False\<rparr>) 0
     = Inr ((projector_two_sources metric_MEAN \<lparr>fill_value = Fin 0, nan_many2one = True, nan_one2many = False\<rparr>)
              \<lparr>output_data := [NaN]\<rparr>)
   \<and> NaN \<noteq> Fin 3"
  by (simp add: Projector_def mapping_size_def implicit_weight_def
      projector_call_def write_output_def)

text \<open>
  C8, amended: when \<open>nan_many2one\<close> is not set, a target fixel whose list is two source
  fixels with the values 2 and 4 (in either order), each listed nowhere else in the
  mapping, with no explicit weights, receives 3 under mean, 6 under sum and 2 under count.
  The input's directions file has as many rows as the data file has fixels.
\<close>

theorem two_sources_aggregate:
  assumes ctor: "Projector files corr met fill_set None = Inr p"
    and idx: "out_index < mapping_size corr"
    and two: "M corr ! out_index = [a, b]"
    and once: "count_list (concat (M corr)) a = 1" "count_list (concat (M corr)) b = 1"
    and vals: "{input_file_data files ! unat a, input_file_data files ! unat b} = {Fin 2, Fin 4}"
    and dirs: "length (input_dir_directions files) = length (input_file_data files)"
    and policy: "\<not> nan_many2one fill_set"
  shows "\<exists>p'. projector_call p out_index = Inr p'
          \<and> (met = metric_MEAN \<longrightarrow> output_data p' ! out_index = Fin 3)
          \<and> (met = metric_SUM \<longrightarrow> output_data p' ! out_index = Fin 6)
          \<and> (met = metric_COUNT \<longrightarrow> output_data p' ! out_index = Fin 2)"
proof -
  note f = Projector_fields [OF ctor]
  have mem: "[a, b] \<in> set (M corr)"
    using idx two by (metis mapping_size_def nth_mem)
  have ra: "unat a < length (input_file_data files)"
    by (rule Projector_indices_in_range [OF ctor mem]) simp
  have rb: "unat b < length (input_file_data files)"
    by (rule Projector_indices_in_range [OF ctor mem]) simp
  have wa: "implicit_weights p ! unat a = Fin 1"
    using Projector_implicit_weight [OF ctor ra] once(1) by (simp add: implicit_weight_one)
  have wb: "implicit_weights p ! unat b = Fin 1"
    using Projector_implicit_weight [OF ctor rb] once(2) by (simp add: implicit_weight_one)
  have g: "gather p [a, b] ([], [], []) =
      Inr (Some ([input_dir_directions files ! unat a, input_dir_directions files ! unat b],
                 [input_file_data files ! unat a, input_file_data files ! unat b],
                 [Fin 1, Fin 1]))"
    using f ra rb wa wb dirs by simp
  from vals consider
      "input_file_data files ! unat a = Fin 2" "input_file_data files ! unat b = Fin 4"
    | "input_file_data files ! unat a = Fin 4" "input_file_data files ! unat b = Fin 2"
    by (auto simp: doubleton_eq_iff)
  then show ?thesis
  proof cases
    case 1
    then show ?thesis
      using f idx two policy g
      by (cases met) (simp_all add: projector_call_def write_output_def aggregate_def Let_def)
  next
    case 2
    then show ?thesis
      using f idx two policy g
      by (cases met) (simp_all add: projector_call_def write_output_def aggregate_def Let_def)
  qed
qed

theorem two_sources_aggregate_witness:
  "Projector files_two_sources mapping_two_to_one metric_MEAN fill_without_many2one None
     = Inr (projector_two_sources metric_MEAN fill_without_many2one)
   \<and> M mapping_two_to_one ! 0 = [0, 1]
   \<and> count_list (concat (M mapping_two_to_one)) 0 = 1
   \<and> count_list (concat (M mapping_two_to_one)) 1 = 1
   \<and> \<not> nan_many2one fill_without_many2one
   \<and> (\<exists>p'. projector_call (projector_two_sources metric_MEAN fill_without_many2one) 0 = Inr p'
          \<and> output_data p' ! 0 = Fin 3)
   \<and> (\<exists>p'. projector_call (projector_two_sources metric_SUM fill_without_many2one) 0 = Inr p'
          \<and> output_data p' ! 0 = Fin 6)
   \<and> (\<exists>p'. projector_call (projector_two_sources metric_COUNT fill_without_many2one) 0 = Inr p'
          \<and> output_data p' ! 0 = Fin 2)"
proof -
  have ctor: "Projector files_two_sources mapping_two_to_one met fill_without_many2one None
                = Inr (projector_two_sources met fill_without_many2one)" for met
    by (simp add: Projector_def mapping_size_def implicit_weight_def)
  have idx: "0 < mapping_size mapping_two_to_one"
    by (simp add: mapping_size_def)
  have two: "M mapping_two_to_one ! 0 = [0, 1]"
    by simp
  have once: "count_list (concat (M mapping_two_to_one)) 0 = 1"
    "count_list (concat (M mapping_two_to_one)) 1 = 1"
    by simp_all
  have vals: "{input_file_data files_two_sources ! unat (0 :: 32 word),
               input_file_data files_two_sources ! unat (1 :: 32 word)} = {Fin 2, Fin 4}"
    by simp
  have dirs: "length (input_dir_directions files_two_sources) = length (input_file_data files_two_sources)"
    by simp
  have policy: "\<not> nan_many2one fill_without_many2one"
    by simp
  note t = two_sources_aggregate [OF ctor idx two once vals dirs policy]
  show ?thesis
    using ctor [of metric_MEAN] two once policy t [of metric_MEAN] t [of metric_SUM] t [of metric_COUNT]
    by simp
qed

subsection \<open>DP2Cost: the table and the indices read\<close>

lemma DP2Cost_length: "length (data (DP2Cost tan_acos_0 resolution)) = resolution + 2"
  by (simp add: DP2Cost_def)

lemma DP2Cost_multiplier:
  "multiplier (DP2Cost tan_acos_0 resolution) = Fin (real (round_to_float resolution))"
  by (simp add: DP2Cost_def float_of_nat_def)



lemma lower_index_Fin:
  "multiplier c = Fin m \<Longrightarrow> lower_index c (Fin x) = Some (nat \<lfloor>x * m\<rfloor>)"
  by (simp add: lower_index_def)

lemma round_to_float_16777219: "round_to_float 16777219 = 16777220"
  by (simp add: round_to_float_def bit_length.simps)

lemma lower_index_in_table:
  assumes "round_to_float resolution \<le> resolution" and "0 \<le> x" and "x \<le> 1"
  shows "\<exists>lower v. lower_index (DP2Cost tan_acos_0 resolution) (Fin x) = Some lower
           \<and> lower \<le> resolution
           \<and> lower + 1 < length (data (DP2Cost tan_acos_0 resolution))
           \<and> dp2cost_call (DP2Cost tan_acos_0 resolution) (Fin x) = Inr v"
proof -
  let ?c = "DP2Cost tan_acos_0 resolution"
  let ?m = "real (round_to_float resolution)"
  have mul: "multiplier ?c = Fin ?m"
    by (rule DP2Cost_multiplier)
  have low: "lower_index ?c (Fin x) = Some (nat \<lfloor>x * ?m\<rfloor>)"
    by (rule lower_index_Fin [OF mul])
  have "x * ?m \<le> 1 * real resolution"
    using assms by (intro mult_mono) simp_all
  then have "\<lfloor>x * ?m\<rfloor> \<le> int resolution"
    by (simp add: floor_le_iff)
  then have bound: "nat \<lfloor>x * ?m\<rfloor> \<le> resolution"
    by simp
  then have inside: "nat \<lfloor>x * ?m\<rfloor> + 1 < length (data ?c)"
    by (simp add: DP2Cost_length)
  have "\<exists>v. dp2cost_call ?c (Fin x) = Inr v"
    unfolding dp2cost_call_def low using assms(2,3) inside by (simp add: Let_def)
  then show ?thesis
    using low bound inside by blast
qed

text \<open>
  C6. The table has \<open>resolution + 2\<close> entries, entry \<open>k\<close> is \<open>tan (acos (k / resolution))\<close> for
  every \<open>k\<close> up to \<open>resolution\<close> and the last entry is 0 (\<open>DP2Cost_length\<close>, \<open>DP2Cost_nth\<close>,
  \<open>DP2Cost_padding\<close>), and for a resolution that \<open>float\<close> holds exactly the two indices read
  are within the table (\<open>lower_index_in_table\<close>). The claim is for every resolution: but the
  multiplier is the resolution converted to \<open>float\<close>, and 16777219 becomes 16777220. For
  \<open>dp = 1\<close> then \<open>lower\<close> is \<open>resolution + 1\<close>, the index of the padding entry, and the read of
  \<open>data[lower+1]\<close> is one past the end of the table.
\<close>

theorem read_past_table_end_at_16777219:
  "length (data (DP2Cost tan_acos_0 16777219)) = 16777219 + 2
   \<and> multiplier (DP2Cost tan_acos_0 16777219) = Fin 16777220
   \<and> lower_index (DP2Cost tan_acos_0 16777219) (Fin 1) = Some (16777219 + 1)
   \<and> dp2cost_call (DP2Cost tan_acos_0 16777219) (Fin 1) = Inl OutOfBounds"
proof -
  have len: "length (data (DP2Cost tan_acos_0 16777219)) = 16777219 + 2"
    by (rule DP2Cost_length)
  have mul: "multiplier (DP2Cost tan_acos_0 16777219) = Fin 16777220"
    by (simp add: DP2Cost_multiplier round_to_float_16777219)
  have low: "lower_index (DP2Cost tan_acos_0 16777219) (Fin 1) = Some (16777219 + 1)"
    using lower_index_Fin [OF mul, of 1] by simp
  have "dp2cost_call (DP2Cost tan_acos_0 16777219) (Fin 1) = Inl OutOfBounds"
    unfolding dp2cost_call_def low len by simp
  then show ?thesis
    using len mul low by blast
qed

subsection \<open>DP2Cost: the cost\<close>

lemma tan_arccos_eq:
  assumes "0 < x" and "x \<le> 1"
  shows "tan (arccos x) = sqrt (1 - x\<^sup>2) / x"
  using assms by (simp add: tan_def sin_arccos cos_arccos)

lemma tan_arccos_nonneg:
  assumes "0 < x" and "x \<le> 1"
  shows "0 \<le> tan (arccos x)"
proof -
  have "x\<^sup>2 \<le> 1"
    using assms by (simp add: power_le_one)
  then show ?thesis
    using assms by (simp add: tan_arccos_eq)
qed











subsection \<open>mrthreshold\<close>

text \<open>
  When two or more of the four options are given with values inside their declared ranges
  and the value of \<open>-abs\<close>, if given, is finite, the check throws before anything else
  happens: every given \<open>-percentile\<close> value inside 0 to 100 is finite and every given count is
  at least 1, so each of them is counted.
\<close>

lemma finite_values_fail_first:
  assumes "2 \<le> mechanisms_requested opts"
    and "\<forall>v. opt_abs opts = Some v \<longrightarrow> isfinite v"
    and "\<forall>v. opt_percentile opts = Some v \<longrightarrow> fle (Fin 0) v \<and> fle v (Fin 100)"
    and "\<forall>n. opt_bottom opts = Some n \<longrightarrow> 1 \<le> n \<and> n \<le> 2 ^ 63 - 1"
    and "\<forall>n. opt_top opts = Some n \<longrightarrow> 1 \<le> n \<and> n \<le> 2 ^ 63 - 1"
  shows "run opts input_is_complex remainder =
           ([], Inl (Exception ''Cannot specify more than one mechanism for threshold selection''))"
proof -
  obtain a where a: "get_option_value (opt_abs opts) abs_out_of_range NaN = Inr a"
    "isfinite a \<longleftrightarrow> opt_abs opts \<noteq> None"
  proof (cases "opt_abs opts")
    case None
    then show ?thesis
      using that [of NaN] by (simp add: get_option_value_def)
  next
    case (Some v)
    then have "isfinite v"
      using assms(2) by simp
    then obtain r where "v = Fin r"
      by (cases v) simp_all
    then show ?thesis
      using that [of v] Some
      by (simp add: get_option_value_def abs_out_of_range_def float_out_of_range_def)
  qed
  obtain p where p: "get_option_value (opt_percentile opts) percentile_out_of_range NaN = Inr p"
    "isfinite p \<longleftrightarrow> opt_percentile opts \<noteq> None"
  proof (cases "opt_percentile opts")
    case None
    then show ?thesis
      using that [of NaN] by (simp add: get_option_value_def)
  next
    case (Some v)
    then have "fle (Fin 0) v \<and> fle v (Fin 100)"
      using assms(3) by simp
    then obtain r where "v = Fin r" "0 \<le> r" "r \<le> 100"
      by (cases v) simp_all
    then show ?thesis
      using that [of v] Some
      by (simp add: get_option_value_def percentile_out_of_range_def float_out_of_range_def)
  qed
  obtain b where b: "get_option_value (opt_bottom opts) count_out_of_range (- 1) = Inr b"
    "0 \<le> b \<longleftrightarrow> opt_bottom opts \<noteq> None"
  proof (cases "opt_bottom opts")
    case None
    then show ?thesis
      using that [of "- 1"] by (simp add: get_option_value_def)
  next
    case (Some n)
    then have "1 \<le> n \<and> n \<le> 2 ^ 63 - 1"
      using assms(4) by simp
    then show ?thesis
      using that [of n] Some
      by (simp add: get_option_value_def count_out_of_range_def integer_out_of_range_def)
  qed
  obtain t where t: "get_option_value (opt_top opts) count_out_of_range (- 1) = Inr t"
    "0 \<le> t \<longleftrightarrow> opt_top opts \<noteq> None"
  proof (cases "opt_top opts")
    case None
    then show ?thesis
      using that [of "- 1"] by (simp add: get_option_value_def)
  next
    case (Some n)
    then have "1 \<le> n \<and> n \<le> 2 ^ 63 - 1"
      using assms(5) by simp
    then show ?thesis
      using that [of n] Some
      by (simp add: get_option_value_def count_out_of_range_def integer_out_of_range_def)
  qed
  have "num_explicit_mechanisms a p b t = mechanisms_requested opts"
    unfolding num_explicit_mechanisms_def mechanisms_requested_def a(2) p(2) b(2) t(2) by simp
  then show ?thesis
    using assms(1) by (simp add: run_def a(1) p(1) b(1) t(1))
qed

text \<open>
  C9. The claim: whenever two or more of \<open>-abs\<close>, \<open>-percentile\<close>, \<open>-top\<close> and \<open>-bottom\<close> are
  requested, the command stops with the error before it opens the input. The options are
  declared under the heading ``use no more than one''. With \<open>-abs inf -top 5\<close> two of them are
  requested and both values are inside their declared ranges (\<open>-abs\<close> has no bounds), but
  the check counts \<open>-abs\<close> through \<open>std::isfinite\<close>: it counts one mechanism, does not throw,
  and \<open>run\<close> goes on to open the input image and to do the work of the remainder, here the
  creation of the output image.
\<close>

theorem abs_inf_with_top_passes_the_check:
  "mechanisms_requested \<lparr>opt_abs = Some PInf, opt_percentile = None, opt_bottom = None, opt_top = Some 5\<rparr> = 2
   \<and> get_option_value (Some PInf) abs_out_of_range NaN = Inr PInf
   \<and> get_option_value (Some 5) count_out_of_range (- 1) = Inr 5
   \<and> num_explicit_mechanisms PInf NaN (- 1) 5 = 1
   \<and> run \<lparr>opt_abs = Some PInf, opt_percentile = None, opt_bottom = None, opt_top = Some 5\<rparr>
         False ([Create_output_image], Inr ())
       = ([Open_input_image, Create_output_image], Inr ())"
  by (simp add: mechanisms_requested_def run_def get_option_value_def num_explicit_mechanisms_def
      abs_out_of_range_def percentile_out_of_range_def count_out_of_range_def
      float_out_of_range_def integer_out_of_range_def)

end
